theory Spec2Isabelle
  imports Complex_Main "HOL-Library.Word"
begin

section \<open>Hum embedding service: the model of main.py\<close>

text \<open>
  The service of \<^verbatim>\<open>hum-embedding-service/main.py\<close> has two module globals
  (\<^verbatim>\<open>processor\<close>, \<^verbatim>\<open>model\<close>), the function \<^verbatim>\<open>load_model\<close>, and the handlers
  \<^verbatim>\<open>startup\<close>, \<^verbatim>\<open>health\<close> and \<^verbatim>\<open>embed\<close>. Everything else is a call into a
  library (transformers, librosa, torch, FastAPI). The libraries are parameters of the
  model: a record of the outcomes of the external calls, each of which either raises
  (\<open>Inl\<close>, carrying the text of the exception) or returns (\<open>Inr\<close>).

  A tensor is a nested list, and floating-point samples and tensor entries are idealised
  as \<open>real\<close>: the model fixes the shape of an answer and the order of the effects, not
  the float32 value of an entry, which torch rounds (and which may be infinite or NaN).
  The two \<^verbatim>\<open>logger.info\<close> calls of \<^verbatim>\<open>load_model\<close> are left out.
\<close>

subsection \<open>Data\<close>

type_synonym bytes = "8 word list"

text \<open>An exception is represented by its text, \<^verbatim>\<open>str(e)\<close>.\<close>

type_synonym exn = string

type_synonym samples = "real list"

text \<open>\<^verbatim>\<open>last_hidden_state\<close>: batch, then time steps, then features.\<close>

type_synonym hidden = "real list list list"

text \<open>
  The external calls the module makes, in the order of their appearance in the source.
  The state keeps the list of the calls made so far, so that the order of effects of a
  handler can be read off.
\<close>

datatype call =
    ProcessorFromPretrained
  | ModelFromPretrained
  | ModelEval
  | UploadRead
  | LibrosaLoad
  | ProcessorCall
  | ModelForward

text \<open>The module globals \<^verbatim>\<open>processor = None\<close>, \<^verbatim>\<open>model = None\<close>, and the call log.\<close>

record ('p, 'm) globals =
  processor :: "'p option"
  model :: "'m option"
  calls :: "call list"

definition initial :: "('p, 'm) globals" where
  "initial = \<lparr>processor = None, model = None, calls = []\<rparr>"

text \<open>
  What the libraries answer while one handler runs. The two \<^verbatim>\<open>from_pretrained\<close> calls
  take the constant \<^verbatim>\<open>MODEL_ID\<close> only, so their outcome is a value; it may differ from one
  handler run to the next (the model storage is external), which is why every run gets
  its own record.
\<close>

record ('p, 'm, 'i) world =
  processor_from_pretrained :: "exn + 'p"
  model_from_pretrained :: "exn + 'm"
  librosa_load :: "bytes \<Rightarrow> exn + samples"
  processor_call :: "'p \<Rightarrow> samples \<Rightarrow> exn + 'i"
  model_forward :: "'m \<Rightarrow> 'i \<Rightarrow> exn + hidden"

text \<open>
  How a handler ends when it does not return: \<^verbatim>\<open>raise HTTPException(status_code, detail)\<close>,
  or any other exception leaving the handler uncaught (the framework answers 500).
\<close>

datatype failure = HTTPException nat string | Uncaught exn

text \<open>
  \<^verbatim>\<open>embedding.tolist()\<close> is a list of floats when \<^verbatim>\<open>squeeze(0)\<close> removed the batch axis,
  and a list of lists otherwise.
\<close>

datatype pylist = Floats "real list" | Lists "real list list"

fun py_len :: "pylist \<Rightarrow> nat" where
  "py_len (Floats v) = length v"
| "py_len (Lists vs) = length vs"

record response =
  embedding :: pylist
  dim :: nat

record health_response =
  status :: string
  embedding_dim :: nat

definition TARGET_SR :: nat where
  "TARGET_SR = 16000"

definition EMBEDDING_DIM :: nat where
  "EMBEDDING_DIM = 768"

subsection \<open>Tensor operations used by the handler\<close>

text \<open>
  \<^verbatim>\<open>hidden.mean(dim=1)\<close> on a tensor of shape (batch, seq, d): for every batch entry the
  rows are added up along the time axis and the sum is divided by the number of rows,
  here in exact arithmetic, where torch adds and divides in float32. A nested list stands for a tensor only when it is rectangular; with no row at all the
  list model returns the empty vector, where torch returns d NaN entries.
\<close>

definition vec_add :: "real list \<Rightarrow> real list \<Rightarrow> real list" where
  "vec_add xs ys = map2 (+) xs ys"

definition sum_rows :: "real list list \<Rightarrow> real list" where
  "sum_rows rows = (case rows of [] \<Rightarrow> [] | r # rs \<Rightarrow> foldl vec_add r rs)"

definition mean_rows :: "real list list \<Rightarrow> real list" where
  "mean_rows rows = map (\<lambda>x. x / real (length rows)) (sum_rows rows)"

definition mean_dim1 :: "hidden \<Rightarrow> real list list" where
  "mean_dim1 h = map mean_rows h"

text \<open>\<^verbatim>\<open>.squeeze(0).tolist()\<close>: the first axis is removed exactly when its size is 1.\<close>

definition squeeze0_tolist :: "real list list \<Rightarrow> pylist" where
  "squeeze0_tolist t = (case t of [r] \<Rightarrow> Floats r | _ \<Rightarrow> Lists t)"

subsection \<open>load_model, startup, health\<close>

definition log_call :: "call \<Rightarrow> ('p, 'm) globals \<Rightarrow> ('p, 'm) globals" where
  "log_call c s = s\<lparr>calls := calls s @ [c]\<rparr>"

text \<open>
  \<^verbatim>\<open>
  def load_model():
      global processor, model
      if model is not None:
          return
      processor = Wav2Vec2Processor.from_pretrained(MODEL_ID)
      model = Wav2Vec2Model.from_pretrained(MODEL_ID)
      model.eval()
  \<close>
  The result is the exception that left the function, or \<open>Inr ()\<close>, with the globals as
  the function left them. \<^verbatim>\<open>model.eval()\<close> only sets a flag of the module and is taken
  not to raise.
\<close>

definition load_model ::
  "('p, 'm, 'i) world \<Rightarrow> ('p, 'm) globals \<Rightarrow> (exn + unit) \<times> ('p, 'm) globals" where
  "load_model w s =
     (if model s \<noteq> None then (Inr (), s)
      else
        let s1 = log_call ProcessorFromPretrained s in
        case processor_from_pretrained w of
          Inl e \<Rightarrow> (Inl e, s1)
        | Inr p \<Rightarrow>
            let s2 = log_call ModelFromPretrained (s1\<lparr>processor := Some p\<rparr>) in
            (case model_from_pretrained w of
               Inl e \<Rightarrow> (Inl e, s2)
             | Inr m \<Rightarrow> (Inr (), log_call ModelEval (s2\<lparr>model := Some m\<rparr>))))"

definition startup ::
  "('p, 'm, 'i) world \<Rightarrow> ('p, 'm) globals \<Rightarrow> (exn + unit) \<times> ('p, 'm) globals" where
  "startup w s = load_model w s"

definition health :: health_response where
  "health = \<lparr>status = ''ok'', embedding_dim = EMBEDDING_DIM\<rparr>"

subsection \<open>embed\<close>

text \<open>
  The \<^verbatim>\<open>with torch.no_grad()\<close> block. Calling a global that is still \<^verbatim>\<open>None\<close> raises a
  TypeError, which nothing catches.
\<close>

definition not_callable :: exn where
  "not_callable = ''TypeError: NoneType object is not callable''"

definition infer ::
  "('p, 'm, 'i) world \<Rightarrow> samples \<Rightarrow> ('p, 'm) globals \<Rightarrow> (failure + response) \<times> ('p, 'm) globals" where
  "infer w y s =
     (case processor s of
        None \<Rightarrow> (Inl (Uncaught not_callable), s)
      | Some p \<Rightarrow>
          let s1 = log_call ProcessorCall s in
          (case processor_call w p y of
             Inl e \<Rightarrow> (Inl (Uncaught e), s1)
           | Inr input_values \<Rightarrow>
               (case model s1 of
                  None \<Rightarrow> (Inl (Uncaught not_callable), s1)
                | Some m \<Rightarrow>
                    let s2 = log_call ModelForward s1 in
                    (case model_forward w m input_values of
                       Inl e \<Rightarrow> (Inl (Uncaught e), s2)
                     | Inr h \<Rightarrow>
                         let vec = squeeze0_tolist (mean_dim1 h) in
                         (Inr \<lparr>embedding = vec, dim = py_len vec\<rparr>, s2)))))"

text \<open>
  The handler of \<^verbatim>\<open>POST /embed\<close>. The upload is the outcome of \<^verbatim>\<open>await audio.read()\<close>:
  an exception or the bytes read.
\<close>

definition embed ::
  "('p, 'm, 'i) world \<Rightarrow> exn + bytes \<Rightarrow> ('p, 'm) globals \<Rightarrow> (failure + response) \<times> ('p, 'm) globals" where
  "embed w audio s =
     (case load_model w s of
        (Inl e, s0) \<Rightarrow> (Inl (Uncaught e), s0)
      | (Inr u, s0) \<Rightarrow>
          let s1 = log_call UploadRead s0 in
          (case audio of
             Inl e \<Rightarrow> (Inl (HTTPException 400 (''Failed to read upload: '' @ e)), s1)
           | Inr contents \<Rightarrow>
               if length contents < 1000
               then (Inl (HTTPException 400 ''Audio file too short''), s1)
               else
                 let s2 = log_call LibrosaLoad s1 in
                 (case librosa_load w contents of
                    Inl e \<Rightarrow> (Inl (HTTPException 400 (''Invalid audio: '' @ e)), s2)
                  | Inr y \<Rightarrow>
                      if length y < 1600
                      then (Inl (HTTPException 400 ''Audio too short after load''), s2)
                      else infer w y s2)))"

subsection \<open>Histories of handler runs\<close>

text \<open>
  A process runs handlers one after the other on the same globals; each run sees the
  libraries as they answer at that moment.
\<close>

datatype request = Startup | Health | Embed "exn + bytes"

fun handle :: "('p, 'm, 'i) world \<Rightarrow> request \<Rightarrow> ('p, 'm) globals \<Rightarrow> ('p, 'm) globals" where
  "handle w Startup s = snd (startup w s)"
| "handle w Health s = s"
| "handle w (Embed audio) s = snd (embed w audio s)"

fun serve :: "(('p, 'm, 'i) world \<times> request) list \<Rightarrow> ('p, 'm) globals \<Rightarrow> ('p, 'm) globals" where
  "serve [] s = s"
| "serve ((w, r) # rs) s = serve rs (handle w r s)"

subsection \<open>A concrete instance\<close>

text \<open>
  A small stand-in for the libraries, for evaluating the handlers on concrete requests:
  a decoder that accepts a 44-byte header starting with RIFF and turns every further byte
  into one sample, a processor that passes the samples on, and an encoder that returns
  one row of 768 entries for every 320 samples after the first 400.
\<close>

definition demo_wav :: "nat \<Rightarrow> bytes" where
  "demo_wav n = [82, 73, 70, 70] @ replicate 40 0 @ replicate n 0"

definition demo_text :: bytes where
  "demo_text = [84, 69, 88, 84] @ replicate 1196 32"

definition demo_world :: "exn + nat \<Rightarrow> exn + nat \<Rightarrow> (nat, nat, samples) world" where
  "demo_world pl ml =
     \<lparr>processor_from_pretrained = pl,
      model_from_pretrained = ml,
      librosa_load = (\<lambda>bs. if take 4 bs = [82, 73, 70, 70]
                            then Inr (map (\<lambda>b. real (unat b) / 128) (drop 44 bs))
                            else Inl ''Format not recognised''),
      processor_call = (\<lambda>p y. Inr y),
      model_forward = (\<lambda>m iv. Inr [map (\<lambda>t. replicate 768 (real t))
                                       [0..<(length iv - 400) div 320 + 1]])\<rparr>"

definition demo_rows :: "real list list" where
  "demo_rows = [replicate 768 0, replicate 768 1, replicate 768 2, replicate 768 3]"

definition demo_ready :: "(nat, nat) globals" where
  "demo_ready = \<lparr>processor = Some 7, model = Some 9,
                 calls = [ProcessorFromPretrained, ModelFromPretrained, ModelEval]\<rparr>"

subsection \<open>Counting the transitions to Ready\<close>

text \<open>
  \<^verbatim>\<open>model.eval()\<close> is called exactly where the model global is set. The call log
  agrees with the globals when it holds one such call if the model is set, and none
  otherwise.
\<close>

definition loads_counted :: "('p, 'm) globals \<Rightarrow> bool" where
  "loads_counted s \<longleftrightarrow> count_list (calls s) ModelEval = (if model s = None then 0 else 1)"

subsection \<open>A model storage that does not answer\<close>

text \<open>
  The model cannot be loaded, with exception \<open>e\<close>, when the loading of the processor
  raises \<open>e\<close>, or returns and the loading of the model raises \<open>e\<close>.
\<close>

definition pretrained_unavailable :: "('p, 'm, 'i) world \<Rightarrow> exn \<Rightarrow> bool" where
  "pretrained_unavailable w e =
     (case processor_from_pretrained w of
        Inl e' \<Rightarrow> e' = e
      | Inr p \<Rightarrow> model_from_pretrained w = Inl e)"

section \<open>Properties\<close>

subsection \<open>Globals and the call log\<close>

lemma log_call_simps:
  "processor (log_call c s) = processor s"
  "model (log_call c s) = model s"
  "calls (log_call c s) = calls s @ [c]"
  by (simp_all add: log_call_def)

lemma load_model_loaded: "model s \<noteq> None \<Longrightarrow> load_model w s = (Inr (), s)"
  by (simp add: load_model_def)

lemma load_model_ok_model:
  "load_model w s = (Inr (), s0) \<Longrightarrow> model s0 \<noteq> None"
  by (auto simp: load_model_def Let_def log_call_simps split: if_splits sum.splits)

lemma length_foldl_vec_add:
  "\<forall>r\<in>set rs. length r = length r0 \<Longrightarrow> length (foldl vec_add r0 rs) = length r0"
  by (induction rs arbitrary: r0) (simp_all add: vec_add_def)

lemma length_sum_rows:
  "rows \<noteq> [] \<Longrightarrow> \<forall>r\<in>set rows. length r = d \<Longrightarrow> length (sum_rows rows) = d"
  by (cases rows) (simp_all add: sum_rows_def length_foldl_vec_add)

lemma length_mean_rows:
  "rows \<noteq> [] \<Longrightarrow> \<forall>r\<in>set rows. length r = d \<Longrightarrow> length (mean_rows rows) = d"
  by (simp add: mean_rows_def length_sum_rows)

lemma infer_ok:
  "processor s = Some p \<Longrightarrow> model s = Some m \<Longrightarrow> processor_call w p y = Inr iv \<Longrightarrow>
   model_forward w m iv = Inr [rows] \<Longrightarrow>
   fst (infer w y s) = Inr \<lparr>embedding = Floats (mean_rows rows), dim = length (mean_rows rows)\<rparr>"
  by (simp add: infer_def Let_def log_call_simps mean_dim1_def squeeze0_tolist_def)

lemma embed_decoded:
  "load_model w s = (Inr (), s0) \<Longrightarrow> 1000 \<le> length contents \<Longrightarrow>
   librosa_load w contents = Inr y \<Longrightarrow> 1600 \<le> length y \<Longrightarrow>
   embed w (Inr contents) s = infer w y (log_call LibrosaLoad (log_call UploadRead s0))"
  by (simp add: embed_def Let_def)

lemma embed_pooled:
  assumes "load_model w s = (Inr (), s0)"
    and "processor s0 = Some p" and "model s0 = Some m"
    and "1000 \<le> length contents"
    and "librosa_load w contents = Inr y" and "1600 \<le> length y"
    and "processor_call w p y = Inr iv"
    and "model_forward w m iv = Inr [rows]"
  shows "fst (embed w (Inr contents) s) =
     Inr \<lparr>embedding = Floats (mean_rows rows), dim = length (mean_rows rows)\<rparr>"
  using assms by (simp add: embed_decoded infer_ok log_call_simps)

lemma load_model_failed:
  "load_model w s = (Inl e, s0) \<Longrightarrow> embed w audio s = (Inl (Uncaught e), s0)"
  by (simp add: embed_def)

lemma infer_handles:
  "processor (snd (infer w y s)) = processor s \<and> model (snd (infer w y s)) = model s"
  by (simp add: infer_def Let_def log_call_simps split: option.splits sum.splits)

lemma infer_calls:
  "\<exists>cs. calls (snd (infer w y s)) = calls s @ cs \<and> set cs \<subseteq> {ProcessorCall, ModelForward}"
  by (auto simp: infer_def Let_def log_call_simps split: option.splits sum.splits)

lemma infer_not_http: "fst (infer w y s) \<noteq> Inl (HTTPException c d)"
  by (simp add: infer_def Let_def split: option.splits sum.splits)

lemma infer_first_call:
  "processor s = Some p \<Longrightarrow> \<exists>cs. calls (snd (infer w y s)) = calls s @ ProcessorCall # cs"
  by (auto simp: infer_def Let_def log_call_simps split: option.splits sum.splits)

lemma embed_handles:
  "processor (snd (embed w audio s)) = processor (snd (load_model w s)) \<and>
   model (snd (embed w audio s)) = model (snd (load_model w s))"
  by (cases "load_model w s")
    (simp add: embed_def Let_def log_call_simps infer_handles split: sum.splits)

lemma embed_calls:
  "\<exists>cs. calls (snd (embed w audio s)) = calls (snd (load_model w s)) @ cs \<and>
     set cs \<subseteq> {UploadRead, LibrosaLoad, ProcessorCall, ModelForward}"
proof (cases "load_model w s")
  case (Pair r s0)
  show ?thesis
  proof (cases r)
    case (Inl e)
    with Pair show ?thesis by (simp add: embed_def)
  next
    case (Inr u)
    have cs: "\<And>y. \<exists>cs. calls (snd (infer w y (log_call LibrosaLoad (log_call UploadRead s0)))) =
        calls s0 @ [UploadRead, LibrosaLoad] @ cs \<and> set cs \<subseteq> {ProcessorCall, ModelForward}"
      using infer_calls by (metis append.assoc append_Cons append_Nil log_call_simps(3))
    show ?thesis
    proof (cases audio)
      case (Inl e)
      with Pair Inr show ?thesis by (simp add: embed_def Let_def log_call_simps)
    next
      case (Inr contents)
      note c = this
      show ?thesis
      proof (cases "length contents < 1000")
        case True
        with Pair \<open>r = Inr u\<close> c show ?thesis by (simp add: embed_def Let_def log_call_simps)
      next
        case False
        show ?thesis
        proof (cases "librosa_load w contents")
          case (Inl e)
          with Pair \<open>r = Inr u\<close> c False show ?thesis
            by (simp add: embed_def Let_def log_call_simps)
        next
          case (Inr y)
          show ?thesis
          proof (cases "length y < 1600")
            case True
            with Pair \<open>r = Inr u\<close> c False Inr show ?thesis
              by (simp add: embed_def Let_def log_call_simps)
          next
            case long: False
            from cs [of y] obtain ds where
              "calls (snd (infer w y (log_call LibrosaLoad (log_call UploadRead s0)))) =
                 calls s0 @ [UploadRead, LibrosaLoad] @ ds" "set ds \<subseteq> {ProcessorCall, ModelForward}"
              by blast
            with Pair \<open>r = Inr u\<close> c False Inr long show ?thesis
              by (auto simp: embed_def Let_def)
          qed
        qed
      qed
    qed
  qed
qed

lemma handle_handles:
  "model s \<noteq> None \<Longrightarrow>
   processor (handle w r s) = processor s \<and> model (handle w r s) = model s"
  by (cases r) (simp_all add: startup_def load_model_loaded embed_handles)

lemma serve_handles:
  "model s \<noteq> None \<Longrightarrow>
   processor (serve hist s) = processor s \<and> model (serve hist s) = model s"
proof (induction hist arbitrary: s)
  case Nil
  then show ?case by simp
next
  case (Cons a hist)
  obtain w r where a: "a = (w, r)" by (cases a)
  have h: "processor (handle w r s) = processor s \<and> model (handle w r s) = model s"
    using Cons.prems by (rule handle_handles)
  then have "model (handle w r s) \<noteq> None" using Cons.prems by simp
  from Cons.IH [OF this] h show ?case by (simp add: a)
qed

lemma embed_depends_on_handles:
  assumes "model s1 \<noteq> None" and "model s2 = model s1" and "processor s2 = processor s1"
    and "librosa_load w2 = librosa_load w1"
    and "processor_call w2 = processor_call w1"
    and "model_forward w2 = model_forward w1"
  shows "fst (embed w2 audio s2) = fst (embed w1 audio s1)"
  using assms
  by (simp add: embed_def load_model_loaded Let_def infer_def log_call_simps
      split: sum.splits option.splits)

lemma handle_calls:
  "model s \<noteq> None \<Longrightarrow>
   \<exists>cs. calls (handle w r s) = calls s @ cs \<and>
     set cs \<subseteq> {UploadRead, LibrosaLoad, ProcessorCall, ModelForward}"
proof (cases r)
  case (Embed audio)
  assume "model s \<noteq> None"
  then have "snd (load_model w s) = s" by (simp add: load_model_loaded)
  with embed_calls [of w audio s] Embed show ?thesis by simp
qed (simp_all add: startup_def load_model_loaded)

lemma serve_calls:
  "model s \<noteq> None \<Longrightarrow>
   \<exists>cs. calls (serve hist s) = calls s @ cs \<and>
     set cs \<subseteq> {UploadRead, LibrosaLoad, ProcessorCall, ModelForward}"
proof (induction hist arbitrary: s)
  case Nil
  then show ?case by simp
next
  case (Cons a hist)
  obtain w r where a: "a = (w, r)" by (cases a)
  from handle_calls [OF Cons.prems, of w r] obtain cs where
    cs: "calls (handle w r s) = calls s @ cs"
      "set cs \<subseteq> {UploadRead, LibrosaLoad, ProcessorCall, ModelForward}" by blast
  have "model (handle w r s) \<noteq> None"
    using handle_handles [OF Cons.prems, of w r] Cons.prems by simp
  from Cons.IH [OF this] obtain ds where
    ds: "calls (serve hist (handle w r s)) = calls (handle w r s) @ ds"
      "set ds \<subseteq> {UploadRead, LibrosaLoad, ProcessorCall, ModelForward}" by blast
  have "calls (serve (a # hist) s) = calls s @ (cs @ ds)"
    using cs(1) ds(1) by (simp add: a)
  moreover have "set (cs @ ds) \<subseteq> {UploadRead, LibrosaLoad, ProcessorCall, ModelForward}"
    using cs(2) ds(2) by simp
  ultimately show ?case by blast
qed

lemma load_model_counted: "loads_counted s \<Longrightarrow> loads_counted (snd (load_model w s))"
  by (auto simp: loads_counted_def load_model_def Let_def log_call_simps split: sum.splits)

lemma embed_counted:
  assumes "loads_counted s"
  shows "loads_counted (snd (embed w audio s))"
proof -
  obtain cs where cs: "calls (snd (embed w audio s)) = calls (snd (load_model w s)) @ cs"
    "set cs \<subseteq> {UploadRead, LibrosaLoad, ProcessorCall, ModelForward}"
    using embed_calls by blast
  then have "ModelEval \<notin> set cs" by auto
  then have "count_list cs ModelEval = 0" by simp
  with cs(1) load_model_counted [OF assms, of w] embed_handles [of w audio s]
  show ?thesis by (simp add: loads_counted_def)
qed

lemma handle_counted: "loads_counted s \<Longrightarrow> loads_counted (handle w r s)"
  by (cases r) (simp_all add: startup_def load_model_counted embed_counted)

lemma serve_counted: "loads_counted s \<Longrightarrow> loads_counted (serve hist s)"
proof (induction hist arbitrary: s)
  case Nil
  then show ?case by simp
next
  case (Cons a hist)
  obtain w r where a: "a = (w, r)" by (cases a)
  show ?case using Cons.IH [OF handle_counted [OF Cons.prems, of w r]] by (simp add: a)
qed

lemma initial_counted: "loads_counted initial"
  by (simp add: loads_counted_def initial_def)

lemma load_model_unavailable:
  assumes "model s = None" and "pretrained_unavailable w e"
  shows "fst (load_model w s) = Inl e"
    and "model (snd (load_model w s)) = None"
    and "\<exists>cs. calls (snd (load_model w s)) = calls s @ cs
            \<and> set cs \<subseteq> {ProcessorFromPretrained, ModelFromPretrained}"
  using assms
  by (auto simp: load_model_def pretrained_unavailable_def Let_def log_call_simps
      split: sum.splits)

lemma load_model_available:
  assumes "model s = None"
    and "processor_from_pretrained w = Inr p" and "model_from_pretrained w = Inr m"
  shows "fst (load_model w s) = Inr ()"
    and "processor (snd (load_model w s)) = Some p"
    and "model (snd (load_model w s)) = Some m"
  using assms by (simp_all add: load_model_def Let_def log_call_simps)

lemma embed_answer_after_load:
  assumes "fst (load_model w s) = Inr ()"
    and "processor r = processor (snd (load_model w s))"
    and "model r = model (snd (load_model w s))"
  shows "fst (embed w audio s) = fst (embed w audio r)"
proof -
  obtain s0 where l: "load_model w s = (Inr (), s0)"
    using assms(1) by (cases "load_model w s") simp
  then have "model s0 \<noteq> None" by (rule load_model_ok_model)
  then have "model r \<noteq> None" using assms(3) l by simp
  then have "load_model w r = (Inr (), r)" by (rule load_model_loaded)
  with l assms(2,3) show ?thesis
    by (simp add: embed_def Let_def infer_def log_call_simps split: sum.splits option.splits)
qed

subsection \<open>The concrete instance evaluated\<close>

lemma demo_load: "load_model (demo_world (Inr 7) (Inr 9)) initial = (Inr (), demo_ready)"
  by (simp add: load_model_def demo_world_def initial_def demo_ready_def log_call_def)

lemma demo_len: "length (demo_wav n) = n + 44"
  by (simp add: demo_wav_def)

lemma demo_decode: "librosa_load (demo_world pl ml) (demo_wav n) = Inr (replicate n 0)"
  by (simp add: demo_world_def demo_wav_def map_replicate_const)

lemma demo_decode_text: "librosa_load (demo_world pl ml) demo_text = Inl ''Format not recognised''"
  by (simp add: demo_world_def demo_text_def)

lemma demo_processor: "processor_call (demo_world pl ml) p y = Inr y"
  by (simp add: demo_world_def)

lemma demo_forward: "model_forward (demo_world pl ml) m (replicate 1600 0) = Inr [demo_rows]"
proof -
  have "[0..<3] = [0, 1, 2::nat]" by code_simp
  then show ?thesis by (simp add: demo_world_def demo_rows_def)
qed

lemma demo_mean: "mean_rows demo_rows = replicate 768 (3 / 2)"
  by (simp add: mean_rows_def sum_rows_def vec_add_def demo_rows_def)


lemma demo_load_fails:
  "load_model (demo_world (Inl ''OSError'') (Inr 9)) initial =
     (Inl ''OSError'', log_call ProcessorFromPretrained initial)"
  by (simp add: load_model_def demo_world_def initial_def)

section \<open>The claims\<close>

text \<open>
  C1. An upload that passes validation (at least 1000 bytes, decodable, at least 1600
  samples after decoding) and whose inference returns is answered with a flat list of
  exactly 768 numbers, and the \<open>dim\<close> field is the length of that list, for any number of
  samples and any number of time steps. Validation is reached when \<open>load_model\<close> returned
  normally; the width 768 is that of the rows the encoder returns.
\<close>

theorem embed_returns_768_floats:
  assumes "load_model w s = (Inr (), s0)"
    and "processor s0 = Some p" and "model s0 = Some m"
    and "1000 \<le> length contents"
    and "librosa_load w contents = Inr y" and "1600 \<le> length y"
    and "processor_call w p y = Inr iv"
    and "model_forward w m iv = Inr [rows]"
    and "rows \<noteq> []" and "\<forall>r\<in>set rows. length r = 768"
  shows "\<exists>v. fst (embed w (Inr contents) s) = Inr \<lparr>embedding = Floats v, dim = length v\<rparr>
           \<and> length v = 768"
proof -
  have "fst (embed w (Inr contents) s) =
      Inr \<lparr>embedding = Floats (mean_rows rows), dim = length (mean_rows rows)\<rparr>"
    using assms(1-8) by (rule embed_pooled)
  moreover have "length (mean_rows rows) = 768"
    using assms(9,10) by (rule length_mean_rows)
  ultimately show ?thesis by blast
qed

theorem embed_returns_768_floats_witness:
  "\<exists>v. fst (embed (demo_world (Inr 7) (Inr 9)) (Inr (demo_wav 1600)) initial) =
         Inr \<lparr>embedding = Floats v, dim = length v\<rparr> \<and> length v = 768"
proof -
  have "processor demo_ready = Some 7" "model demo_ready = Some 9"
    by (simp_all add: demo_ready_def)
  moreover have "1000 \<le> length (demo_wav 1600)" "1600 \<le> length (replicate 1600 (0::real))"
    by (simp_all add: demo_len)
  moreover have "demo_rows \<noteq> []" "\<forall>r\<in>set demo_rows. length r = 768"
    by (simp_all add: demo_rows_def)
  ultimately show ?thesis
    using embed_returns_768_floats [OF demo_load _ _ _ demo_decode _ demo_processor demo_forward]
    by blast
qed

text \<open>
  C2. With the model loaded and the upload read, fewer than 1000 bytes end the request
  with the 400 error \<open>Audio file too short\<close>, the read of the upload being the last
  external call made (no decoding); with 1000 bytes or more the request does not end with
  that error and its next external call is the decoding.
\<close>

theorem embed_byte_length_check:
  assumes "load_model w s = (Inr (), s0)"
  shows "(length contents < 1000 \<longrightarrow>
            embed w (Inr contents) s =
              (Inl (HTTPException 400 ''Audio file too short''), log_call UploadRead s0))
       \<and> (1000 \<le> length contents \<longrightarrow>
            fst (embed w (Inr contents) s) \<noteq> Inl (HTTPException 400 ''Audio file too short'')
            \<and> (\<exists>cs. calls (snd (embed w (Inr contents) s)) =
                      calls s0 @ [UploadRead, LibrosaLoad] @ cs))"
proof (intro conjI impI)
  assume "length contents < 1000"
  with assms show "embed w (Inr contents) s =
      (Inl (HTTPException 400 ''Audio file too short''), log_call UploadRead s0)"
    by (simp add: embed_def Let_def)
next
  assume long: "1000 \<le> length contents"
  show "fst (embed w (Inr contents) s) \<noteq> Inl (HTTPException 400 ''Audio file too short'')"
    using assms long
    by (simp add: embed_def Let_def infer_not_http split: sum.splits)
next
  assume long: "1000 \<le> length contents"
  let ?s2 = "log_call LibrosaLoad (log_call UploadRead s0)"
  have base: "calls ?s2 = calls s0 @ [UploadRead, LibrosaLoad]"
    by (simp add: log_call_simps)
  show "\<exists>cs. calls (snd (embed w (Inr contents) s)) = calls s0 @ [UploadRead, LibrosaLoad] @ cs"
  proof (cases "librosa_load w contents")
    case (Inl e)
    with assms long base show ?thesis by (simp add: embed_def Let_def)
  next
    case (Inr y)
    show ?thesis
    proof (cases "length y < 1600")
      case True
      with assms long base Inr show ?thesis by (simp add: embed_def Let_def)
    next
      case False
      obtain cs where "calls (snd (infer w y ?s2)) = calls ?s2 @ cs"
        using infer_calls by blast
      with assms long base Inr False show ?thesis by (simp add: embed_def Let_def)
    qed
  qed
qed

theorem embed_byte_length_check_witness:
  "embed (demo_world (Inr 7) (Inr 9)) (Inr (replicate 999 0)) initial =
     (Inl (HTTPException 400 ''Audio file too short''), log_call UploadRead demo_ready)
   \<and> fst (embed (demo_world (Inr 7) (Inr 9)) (Inr (replicate 1000 0)) initial) \<noteq>
       Inl (HTTPException 400 ''Audio file too short'')
   \<and> (\<exists>cs. calls (snd (embed (demo_world (Inr 7) (Inr 9)) (Inr (replicate 1000 0)) initial)) =
          calls demo_ready @ [UploadRead, LibrosaLoad] @ cs)"
  using embed_byte_length_check [OF demo_load, of "replicate 999 0"]
    embed_byte_length_check [OF demo_load, of "replicate 1000 0"]
  by simp

text \<open>
  C3. When the decoder returns fewer than 1600 samples, the request ends with the 400
  error \<open>Audio too short after load\<close> and the decoding is the last external call made (the
  processor and the encoder are not called); with 1600 samples or more the request ends
  with no 400 error at all and its next external call is the processor call that opens
  inference.
\<close>

theorem embed_sample_count_check:
  assumes "load_model w s = (Inr (), s0)" and "processor s0 = Some p"
    and "1000 \<le> length contents" and "librosa_load w contents = Inr y"
  shows "(length y < 1600 \<longrightarrow>
            embed w (Inr contents) s =
              (Inl (HTTPException 400 ''Audio too short after load''),
               log_call LibrosaLoad (log_call UploadRead s0)))
       \<and> (1600 \<le> length y \<longrightarrow>
            (\<forall>c d. fst (embed w (Inr contents) s) \<noteq> Inl (HTTPException c d))
            \<and> (\<exists>cs. calls (snd (embed w (Inr contents) s)) =
                      calls s0 @ [UploadRead, LibrosaLoad, ProcessorCall] @ cs))"
proof (intro conjI impI allI)
  assume "length y < 1600"
  with assms show "embed w (Inr contents) s =
      (Inl (HTTPException 400 ''Audio too short after load''),
       log_call LibrosaLoad (log_call UploadRead s0))"
    by (simp add: embed_def Let_def)
next
  fix c d
  assume "1600 \<le> length y"
  with assms show "fst (embed w (Inr contents) s) \<noteq> Inl (HTTPException c d)"
    by (simp add: embed_decoded infer_not_http)
next
  assume long: "1600 \<le> length y"
  let ?s2 = "log_call LibrosaLoad (log_call UploadRead s0)"
  have "processor ?s2 = Some p" using assms(2) by (simp add: log_call_simps)
  from infer_first_call [OF this, of w y]
  obtain cs where "calls (snd (infer w y ?s2)) = calls ?s2 @ ProcessorCall # cs" ..
  with assms long show "\<exists>cs. calls (snd (embed w (Inr contents) s)) =
      calls s0 @ [UploadRead, LibrosaLoad, ProcessorCall] @ cs"
    by (simp add: embed_decoded log_call_simps)
qed

theorem embed_sample_count_check_witness:
  "embed (demo_world (Inr 7) (Inr 9)) (Inr (demo_wav 1599)) initial =
     (Inl (HTTPException 400 ''Audio too short after load''),
      log_call LibrosaLoad (log_call UploadRead demo_ready))
   \<and> (\<forall>c d. fst (embed (demo_world (Inr 7) (Inr 9)) (Inr (demo_wav 1600)) initial) \<noteq>
         Inl (HTTPException c d))
   \<and> (\<exists>cs. calls (snd (embed (demo_world (Inr 7) (Inr 9)) (Inr (demo_wav 1600)) initial)) =
          calls demo_ready @ [UploadRead, LibrosaLoad, ProcessorCall] @ cs)"
proof -
  have p: "processor demo_ready = Some 7" by (simp add: demo_ready_def)
  have l: "1000 \<le> length (demo_wav 1599)" "1000 \<le> length (demo_wav 1600)"
    by (simp_all add: demo_len)
  show ?thesis
    using embed_sample_count_check [OF demo_load p l(1) demo_decode]
      embed_sample_count_check [OF demo_load p l(2) demo_decode]
    by simp
qed

text \<open>
  C5. Two requests with the same upload, made to one process whose model is loaded and
  separated by any history of other handler runs, get the same answer, and so the same
  embedding. The libraries enter as functions of their arguments: decoding, preprocessing
  and the forward pass answer alike at both moments, while the model storage may answer
  differently, since it is not consulted again.
\<close>

theorem embed_deterministic:
  assumes "model s \<noteq> None"
    and "librosa_load w2 = librosa_load w1"
    and "processor_call w2 = processor_call w1"
    and "model_forward w2 = model_forward w1"
  shows "fst (embed w2 audio (serve hist s)) = fst (embed w1 audio s)"
  using assms(1) serve_handles [OF assms(1), of hist] assms(2-4)
  by (intro embed_depends_on_handles) simp_all

theorem embed_deterministic_witness:
  "fst (embed (demo_world (Inl ''offline'') (Inl ''offline'')) (Inr (demo_wav 1600))
         (serve [(demo_world (Inl ''offline'') (Inr 3), Startup),
                 (demo_world (Inr 5) (Inr 3), Embed (Inr demo_text)),
                 (demo_world (Inr 5) (Inr 3), Embed (Inr (demo_wav 1600)))] demo_ready))
   = fst (embed (demo_world (Inr 7) (Inr 9)) (Inr (demo_wav 1600)) demo_ready)"
proof -
  have "model demo_ready \<noteq> None" by (simp add: demo_ready_def)
  then show ?thesis
    by (rule embed_deterministic) (simp_all add: demo_world_def)
qed

text \<open>
  The sentence in C6 that a model-load failure cannot be recovered from by a later
  request does not hold of \<open>embed\<close>. The handler calls \<open>load_model\<close> itself, for the
  request that finds the model not loaded (the first use that the specification names
  beside the startup hook). Such a request, meeting a \<^verbatim>\<open>from_pretrained\<close> that raises,
  ends with the uncaught exception and leaves the model global \<open>None\<close>; the next request
  on these globals, meeting a storage that answers, loads the model and returns an
  embedding.
\<close>

theorem load_failure_fatal_counterexample:
  "embed (demo_world (Inl ''OSError'') (Inr 9)) (Inr (demo_wav 1600)) initial =
     (Inl (Uncaught ''OSError''), log_call ProcessorFromPretrained initial)
   \<and> model (log_call ProcessorFromPretrained initial :: (nat, nat) globals) = None
   \<and> fst (embed (demo_world (Inr 7) (Inr 9)) (Inr (demo_wav 1600))
            (log_call ProcessorFromPretrained initial)) =
       Inr \<lparr>embedding = Floats (replicate 768 (3 / 2)), dim = 768\<rparr>"
proof (intro conjI)
  show "embed (demo_world (Inl ''OSError'') (Inr 9)) (Inr (demo_wav 1600)) initial =
     (Inl (Uncaught ''OSError''), log_call ProcessorFromPretrained initial)"
    by (simp add: embed_def load_model_def demo_world_def initial_def)
  show "model (log_call ProcessorFromPretrained initial :: (nat, nat) globals) = None"
    by (simp add: log_call_simps initial_def)
  have l: "load_model (demo_world (Inr 7) (Inr 9)) (log_call ProcessorFromPretrained initial) =
      (Inr (), demo_ready\<lparr>calls := ProcessorFromPretrained # calls demo_ready\<rparr>)"
    by (simp add: load_model_def demo_world_def initial_def demo_ready_def log_call_def)
  have "fst (embed (demo_world (Inr 7) (Inr 9)) (Inr (demo_wav 1600))
            (log_call ProcessorFromPretrained initial)) =
      Inr \<lparr>embedding = Floats (mean_rows demo_rows), dim = length (mean_rows demo_rows)\<rparr>"
    by (rule embed_pooled [OF l _ _ _ demo_decode _ demo_processor demo_forward])
      (simp_all add: demo_ready_def demo_len)
  then show "fst (embed (demo_world (Inr 7) (Inr 9)) (Inr (demo_wav 1600))
            (log_call ProcessorFromPretrained initial)) =
       Inr \<lparr>embedding = Floats (replicate 768 (3 / 2)), dim = 768\<rparr>"
    by (simp add: demo_mean)
qed

text \<open>
  C6, as it holds of the code. When the model is not loaded and cannot be loaded,
  \<open>load_model\<close> raises the exception of the failing \<^verbatim>\<open>from_pretrained\<close> and the model
  global is still \<open>None\<close> (the service is not Ready); \<open>startup\<close> is that call; and
  \<open>embed\<close> leaves with the exception uncaught, whatever the upload, in the globals
  \<open>load_model\<close> left and with no call made but those to \<^verbatim>\<open>from_pretrained\<close>, so no
  embedding is served. The failure is one of the request: a later \<open>embed\<close> on the globals
  it left, for which both \<^verbatim>\<open>from_pretrained\<close> calls return, sets both handles and gives
  the answer that a service with these handles loaded gives. Once the model global is
  set, no history of handler runs changes it; and over any history from the initial
  globals the step that sets it (the one followed by \<^verbatim>\<open>model.eval()\<close>) is taken at most
  once. What a server does with the exception that leaves the startup hook is not in
  \<^verbatim>\<open>main.py\<close>, and is not stated.
\<close>

theorem load_failure_not_ready:
  "(model s = None \<and> pretrained_unavailable w e \<longrightarrow>
        fst (load_model w s) = Inl e
      \<and> model (snd (load_model w s)) = None
      \<and> startup w s = load_model w s
      \<and> embed w audio s = (Inl (Uncaught e), snd (load_model w s))
      \<and> (\<exists>cs. calls (snd (embed w audio s)) = calls s @ cs
             \<and> set cs \<subseteq> {ProcessorFromPretrained, ModelFromPretrained})
      \<and> (processor_from_pretrained w' = Inr p' \<and> model_from_pretrained w' = Inr m' \<longrightarrow>
            processor (snd (embed w' audio' (snd (embed w audio s)))) = Some p'
          \<and> model (snd (embed w' audio' (snd (embed w audio s)))) = Some m'
          \<and> (processor r = Some p' \<and> model r = Some m' \<longrightarrow>
                fst (embed w' audio' (snd (embed w audio s))) = fst (embed w' audio' r))))
   \<and> (model s' \<noteq> None \<longrightarrow> model (serve hist s') = model s')
   \<and> count_list (calls (serve hist' (initial :: ('p, 'm) globals))) ModelEval \<le> 1"
proof (intro conjI impI)
  assume a: "model s = None \<and> pretrained_unavailable w e"
  then have a1: "model s = None" and a2: "pretrained_unavailable w e" by simp_all
  have f: "fst (load_model w s) = Inl e" and n: "model (snd (load_model w s)) = None"
    using a1 a2 by (rule load_model_unavailable)+
  show "fst (load_model w s) = Inl e" by (rule f)
  show "model (snd (load_model w s)) = None" by (rule n)
  show "startup w s = load_model w s" by (simp add: startup_def)
  have l: "load_model w s = (Inl e, snd (load_model w s))"
    using f by (cases "load_model w s") simp
  then show e: "embed w audio s = (Inl (Uncaught e), snd (load_model w s))"
    by (rule load_model_failed)
  show "\<exists>cs. calls (snd (embed w audio s)) = calls s @ cs
      \<and> set cs \<subseteq> {ProcessorFromPretrained, ModelFromPretrained}"
    using load_model_unavailable(3) [OF a1 a2] e by simp
  let ?s1 = "snd (embed w audio s)"
  have n1: "model ?s1 = None" using e n by simp
  assume b: "processor_from_pretrained w' = Inr p' \<and> model_from_pretrained w' = Inr m'"
  have ok: "fst (load_model w' ?s1) = Inr ()"
    and p: "processor (snd (load_model w' ?s1)) = Some p'"
    and m: "model (snd (load_model w' ?s1)) = Some m'"
    using n1 b by (simp_all add: load_model_available)
  show "processor (snd (embed w' audio' ?s1)) = Some p'"
    using p by (simp add: embed_handles)
  show "model (snd (embed w' audio' ?s1)) = Some m'"
    using m by (simp add: embed_handles)
  assume "processor r = Some p' \<and> model r = Some m'"
  then show "fst (embed w' audio' ?s1) = fst (embed w' audio' r)"
    using p m by (intro embed_answer_after_load [OF ok]) simp_all
next
  assume "model s' \<noteq> None"
  then show "model (serve hist s') = model s'" by (simp add: serve_handles)
next
  have "loads_counted (serve hist' (initial :: ('p, 'm) globals))"
    using initial_counted by (rule serve_counted)
  then show "count_list (calls (serve hist' (initial :: ('p, 'm) globals))) ModelEval \<le> 1"
    by (simp add: loads_counted_def)
qed

theorem load_failure_not_ready_witness:
  "fst (load_model (demo_world (Inr 7) (Inl ''OSError'')) initial) = Inl ''OSError''
   \<and> model (snd (load_model (demo_world (Inr 7) (Inl ''OSError'')) initial)) = None
   \<and> embed (demo_world (Inr 7) (Inl ''OSError'')) (Inr (demo_wav 1600)) initial =
       (Inl (Uncaught ''OSError''), snd (load_model (demo_world (Inr 7) (Inl ''OSError'')) initial))
   \<and> model (snd (embed (demo_world (Inr 5) (Inr 9)) (Inr (demo_wav 1600))
        (snd (embed (demo_world (Inr 7) (Inl ''OSError'')) (Inr (demo_wav 1600)) initial)))) = Some 9
   \<and> fst (embed (demo_world (Inr 5) (Inr 9)) (Inr (demo_wav 1600))
        (snd (embed (demo_world (Inr 7) (Inl ''OSError'')) (Inr (demo_wav 1600)) initial))) =
     fst (embed (demo_world (Inr 5) (Inr 9)) (Inr (demo_wav 1600))
        (demo_ready\<lparr>processor := Some 5\<rparr>))
   \<and> model (serve [(demo_world (Inl ''OSError'') (Inr 3), Startup),
                   (demo_world (Inr 5) (Inr 3), Embed (Inr demo_text))] demo_ready) =
       model demo_ready
   \<and> count_list (calls (serve [(demo_world (Inr 7) (Inr 9), Startup),
                               (demo_world (Inr 5) (Inr 3), Startup)]
                        (initial :: (nat, nat) globals))) ModelEval \<le> 1"
proof -
  have "model (initial :: (nat, nat) globals) = None" by (simp add: initial_def)
  moreover have "pretrained_unavailable (demo_world (Inr 7) (Inl ''OSError'')) ''OSError''"
    by (simp add: pretrained_unavailable_def demo_world_def)
  moreover have "processor_from_pretrained (demo_world (Inr 5) (Inr 9)) = Inr 5"
    "model_from_pretrained (demo_world (Inr 5) (Inr 9)) = Inr 9"
    by (simp_all add: demo_world_def)
  moreover have "processor (demo_ready\<lparr>processor := Some 5\<rparr>) = Some 5"
    "model (demo_ready\<lparr>processor := Some 5\<rparr>) = Some 9"
    "model demo_ready \<noteq> None"
    by (simp_all add: demo_ready_def)
  ultimately show ?thesis
    using load_failure_not_ready [of initial "demo_world (Inr 7) (Inl ''OSError'')" "''OSError''"
        "Inr (demo_wav 1600)" "demo_world (Inr 5) (Inr 9)" 5 9 "Inr (demo_wav 1600)"
        "demo_ready\<lparr>processor := Some 5\<rparr>" demo_ready
        "[(demo_world (Inl ''OSError'') (Inr 3), Startup),
          (demo_world (Inr 5) (Inr 3), Embed (Inr demo_text))]"
        "[(demo_world (Inr 7) (Inr 9), Startup), (demo_world (Inr 5) (Inr 3), Startup)]"]
    by blast
qed

text \<open>
  C7. With the model loaded and at least 1000 bytes read, any exception of the decoder
  ends the request with the 400 error whose detail is \<open>Invalid audio: \<close> followed by the
  text of the exception; the exception does not leave the handler.
\<close>

theorem embed_decode_failure_400:
  assumes "load_model w s = (Inr (), s0)"
    and "1000 \<le> length contents"
    and "librosa_load w contents = Inl e"
  shows "embed w (Inr contents) s =
     (Inl (HTTPException 400 (''Invalid audio: '' @ e)),
      log_call LibrosaLoad (log_call UploadRead s0))"
  using assms by (simp add: embed_def Let_def)

theorem embed_decode_failure_400_witness:
  "embed (demo_world (Inr 7) (Inr 9)) (Inr demo_text) initial =
     (Inl (HTTPException 400 (''Invalid audio: '' @ ''Format not recognised'')),
      log_call LibrosaLoad (log_call UploadRead demo_ready))"
proof -
  have "1000 \<le> length demo_text" by (simp add: demo_text_def)
  then show ?thesis
    using embed_decode_failure_400 [OF demo_load _ demo_decode_text] by simp
qed

text \<open>
  C8. After a call of \<open>load_model\<close> that returned normally, a further call returns
  normally and leaves the globals as they are, whatever the model storage would answer,
  also after any history of handler runs; over such a history both handles stay the
  same and no \<^verbatim>\<open>from_pretrained\<close> call is made.
\<close>

theorem load_model_idempotent:
  assumes "load_model w s = (Inr (), s0)"
  shows "load_model w' s0 = (Inr (), s0)
       \<and> load_model w' (serve hist s0) = (Inr (), serve hist s0)
       \<and> processor (serve hist s0) = processor s0
       \<and> model (serve hist s0) = model s0
       \<and> (\<exists>cs. calls (serve hist s0) = calls s0 @ cs
              \<and> set cs \<subseteq> {UploadRead, LibrosaLoad, ProcessorCall, ModelForward})"
proof -
  have m: "model s0 \<noteq> None" using assms by (rule load_model_ok_model)
  have h: "processor (serve hist s0) = processor s0 \<and> model (serve hist s0) = model s0"
    using m by (rule serve_handles)
  then have "model (serve hist s0) \<noteq> None" using m by simp
  then have "load_model w' (serve hist s0) = (Inr (), serve hist s0)"
    by (rule load_model_loaded)
  moreover have "load_model w' s0 = (Inr (), s0)" using m by (rule load_model_loaded)
  ultimately show ?thesis using h serve_calls [OF m, of hist] by blast
qed

theorem load_model_idempotent_witness:
  "load_model (demo_world (Inr 5) (Inr 3)) demo_ready = (Inr (), demo_ready)
   \<and> load_model (demo_world (Inr 5) (Inr 3))
        (serve [(demo_world (Inr 5) (Inr 3), Startup),
                (demo_world (Inr 5) (Inr 3), Embed (Inr (demo_wav 1600)))] demo_ready) =
       (Inr (), serve [(demo_world (Inr 5) (Inr 3), Startup),
                (demo_world (Inr 5) (Inr 3), Embed (Inr (demo_wav 1600)))] demo_ready)
   \<and> processor (serve [(demo_world (Inr 5) (Inr 3), Startup),
                (demo_world (Inr 5) (Inr 3), Embed (Inr (demo_wav 1600)))] demo_ready) = Some 7
   \<and> model (serve [(demo_world (Inr 5) (Inr 3), Startup),
                (demo_world (Inr 5) (Inr 3), Embed (Inr (demo_wav 1600)))] demo_ready) = Some 9"
  using load_model_idempotent [OF demo_load, of "demo_world (Inr 5) (Inr 3)"
      "[(demo_world (Inr 5) (Inr 3), Startup),
        (demo_world (Inr 5) (Inr 3), Embed (Inr (demo_wav 1600)))]"]
  by (simp add: demo_ready_def)

text \<open>
  C9. Every external call \<open>embed\<close> makes for a request comes after the calls of its
  \<open>load_model\<close>; with the model not loaded the first of them is the loading of the
  processor, whatever the upload; and when \<open>load_model\<close> raises, the request ends with
  that exception uncaught, not with a 400 error of the validation.
\<close>

theorem embed_loads_model_first:
  "(\<exists>cs. calls (snd (embed w audio s)) = calls (snd (load_model w s)) @ cs
        \<and> set cs \<subseteq> {UploadRead, LibrosaLoad, ProcessorCall, ModelForward})
   \<and> (model s = None \<longrightarrow>
        (\<exists>cs. calls (snd (embed w audio s)) = calls s @ ProcessorFromPretrained # cs))
   \<and> (load_model w s = (Inl e, s0) \<longrightarrow> embed w audio s = (Inl (Uncaught e), s0))"
proof (intro conjI impI)
  show "\<exists>cs. calls (snd (embed w audio s)) = calls (snd (load_model w s)) @ cs
        \<and> set cs \<subseteq> {UploadRead, LibrosaLoad, ProcessorCall, ModelForward}"
    by (rule embed_calls)
next
  assume "model s = None"
  then have "\<exists>ds. calls (snd (load_model w s)) = calls s @ ProcessorFromPretrained # ds"
    by (simp add: load_model_def Let_def log_call_simps split: sum.splits)
  then obtain ds where "calls (snd (load_model w s)) = calls s @ ProcessorFromPretrained # ds" ..
  moreover obtain cs where "calls (snd (embed w audio s)) = calls (snd (load_model w s)) @ cs"
    using embed_calls by blast
  ultimately have "calls (snd (embed w audio s)) = calls s @ ProcessorFromPretrained # (ds @ cs)"
    by simp
  then show "\<exists>cs. calls (snd (embed w audio s)) = calls s @ ProcessorFromPretrained # cs" ..
next
  assume "load_model w s = (Inl e, s0)"
  then show "embed w audio s = (Inl (Uncaught e), s0)" by (rule load_model_failed)
qed

theorem embed_loads_model_first_witness:
  "(\<exists>cs. calls (snd (embed (demo_world (Inr 7) (Inr 9)) (Inr (replicate 999 0)) initial)) =
        calls (initial :: (nat, nat) globals) @ ProcessorFromPretrained # cs)
   \<and> embed (demo_world (Inl ''OSError'') (Inr 9)) (Inr (replicate 999 0)) initial =
       (Inl (Uncaught ''OSError''), log_call ProcessorFromPretrained initial)"
proof -
  have "model (initial :: (nat, nat) globals) = None" by (simp add: initial_def)
  then show ?thesis
    using embed_loads_model_first [of "demo_world (Inr 7) (Inr 9)" "Inr (replicate 999 0)" initial]
      embed_loads_model_first [of "demo_world (Inl ''OSError'') (Inr 9)" "Inr (replicate 999 0)"
        initial "''OSError''" "log_call ProcessorFromPretrained initial"]
      demo_load_fails
    by simp
qed

text \<open>
  C10. With the model global \<open>None\<close>, a call of \<open>load_model\<close> in which the processor loads
  and the model does not leaves the processor set and the model \<open>None\<close>; the next call
  loads the processor again (two loads of it in all), and, when that load returns,
  assigns the new handle.
\<close>

theorem load_model_partial_init:
  assumes "model s = None"
    and "processor_from_pretrained w = Inr p"
    and "model_from_pretrained w = Inl e"
  shows "fst (load_model w s) = Inl e
       \<and> processor (snd (load_model w s)) = Some p
       \<and> model (snd (load_model w s)) = None
       \<and> count_list (calls (snd (load_model w' (snd (load_model w s))))) ProcessorFromPretrained =
           count_list (calls s) ProcessorFromPretrained + 2
       \<and> (processor_from_pretrained w' = Inr p' \<longrightarrow>
            processor (snd (load_model w' (snd (load_model w s)))) = Some p')"
  using assms
  by (simp add: load_model_def Let_def log_call_simps split: sum.splits)

theorem load_model_partial_init_witness:
  "fst (load_model (demo_world (Inr 7) (Inl ''OSError'')) initial) = Inl ''OSError''
   \<and> processor (snd (load_model (demo_world (Inr 7) (Inl ''OSError'')) initial)) = Some 7
   \<and> model (snd (load_model (demo_world (Inr 7) (Inl ''OSError'')) initial)) = None
   \<and> count_list (calls (snd (load_model (demo_world (Inr 5) (Inr 3))
         (snd (load_model (demo_world (Inr 7) (Inl ''OSError'')) initial))))) ProcessorFromPretrained = 2
   \<and> processor (snd (load_model (demo_world (Inr 5) (Inr 3))
         (snd (load_model (demo_world (Inr 7) (Inl ''OSError'')) initial)))) = Some 5"
proof -
  have "model (initial :: (nat, nat) globals) = None"
    "count_list (calls (initial :: (nat, nat) globals)) ProcessorFromPretrained = 0"
    by (simp_all add: initial_def)
  moreover have "processor_from_pretrained (demo_world (Inr 7) (Inl ''OSError'')) = Inr 7"
    "model_from_pretrained (demo_world (Inr 7) (Inl ''OSError'')) = Inl ''OSError''"
    "processor_from_pretrained (demo_world (Inr 5) (Inr 3)) = Inr 5"
    by (simp_all add: demo_world_def)
  ultimately show ?thesis
    using load_model_partial_init [of initial "demo_world (Inr 7) (Inl ''OSError'')" 7 "''OSError''"
        "demo_world (Inr 5) (Inr 3)" 5]
    by simp
qed

end
